theory Spec2Isabelle
  imports Main "HOL-Library.Word"
begin

unbundle bit_operations_syntax

section \<open>GPU configuration of linux-driver-management (src/lib/gpu-config.c)\<close>

subsection \<open>Faults\<close>

text \<open>
  The C code can go wrong in two ways inside this file: reading a field through a NULL
  pointer, and reading \<open>devices->pdata[i]\<close> beyond \<open>devices->len\<close>. Both are values
  of the model, so that "does not fault" is a statement about a result.
\<close>

datatype fault = NullDereference | IndexOutOfRange

subsection \<open>Devices (external to gpu-config.c)\<close>

text \<open>
  An \<open>LdmDevice *\<close> is modelled as \<open>LdmDevice option\<close>, \<open>None\<close> being NULL. The C
  code compares devices by pointer (\<open>device == not_like\<close>); the field \<open>dev_addr\<close> is
  the identity of the object, so that two distinct devices with the same vendor and
  attributes are different values, as they are different pointers.
\<close>

datatype LdmDeviceAttribute = LDM_DEVICE_ATTRIBUTE_BOOT_VGA

record LdmDevice =
  dev_addr :: nat
  vendor :: int
  has_boot_vga :: bool

text \<open>
  Modelled from the spec: the vendor identifiers of ldm-enums.h are not part of the
  source at hand. The spec gives the vendors INTEL, AMD and NVIDIA (and "other"); the C
  code compares \<open>gint\<close> identifiers. They are given their PCI vendor numbers here; only
  that the three differ from each other and from 0 is ever used.
\<close>

definition LDM_PCI_VENDOR_ID_INTEL :: int where
  "LDM_PCI_VENDOR_ID_INTEL = 0x8086"

definition LDM_PCI_VENDOR_ID_AMD :: int where
  "LDM_PCI_VENDOR_ID_AMD = 0x1002"

definition LDM_PCI_VENDOR_ID_NVIDIA :: int where
  "LDM_PCI_VENDOR_ID_NVIDIA = 0x10DE"

text \<open>
  Modelled from the spec: \<open>ldm_device_has_attribute\<close> (device.c) is not part of the
  source at hand. The spec gives \<open>PCIDevice.hasAttribute(BOOT_VGA) -> bool\<close> and
  requires that a rule evaluated with a null device fails safely: on NULL the answer is
  FALSE.
\<close>

fun ldm_device_has_attribute :: "LdmDevice option \<Rightarrow> LdmDeviceAttribute \<Rightarrow> bool" where
  "ldm_device_has_attribute None attr = False"
| "ldm_device_has_attribute (Some device) LDM_DEVICE_ATTRIBUTE_BOOT_VGA = has_boot_vga device"

text \<open>
  Modelled from the spec: \<open>ldm_device_get_vendor_id\<close> (device.c) is not part of the
  source at hand. The spec gives \<open>PCIDevice.vendorId()\<close> and requires that a rule
  evaluated with a null device fails safely: on NULL the answer is 0, which is no
  vendor's identifier.
\<close>

fun ldm_device_get_vendor_id :: "LdmDevice option \<Rightarrow> int" where
  "ldm_device_get_vendor_id None = 0"
| "ldm_device_get_vendor_id (Some device) = vendor device"

subsection \<open>The manager (external to gpu-config.c)\<close>

text \<open>
  Modelled from the spec: \<open>ldm_manager_get_devices\<close> (manager.c) is not part of the
  source at hand. The spec's device catalog returns the devices of class PCI and GPU as
  an ordered sequence, index 0 being the first discovered; the manager is modelled by
  that sequence. The entries of the array are devices, never NULL.
\<close>

record LdmManager =
  pci_gpu_devices :: "LdmDevice list"

definition ldm_manager_get_devices :: "LdmManager \<Rightarrow> LdmDevice list" where
  "ldm_manager_get_devices manager = pci_gpu_devices manager"

text \<open>\<open>devices->pdata[i]\<close>, a fault beyond \<open>devices->len\<close>.\<close>

definition pdata :: "'a list \<Rightarrow> nat \<Rightarrow> fault + 'a" where
  "pdata devices i = (if i < length devices then Inr (devices ! i) else Inl IndexOutOfRange)"

subsection \<open>The configuration\<close>

text \<open>
  Modelled from the spec: the enumeration \<open>LdmGPUType\<close> (gpu-config.h) is not part of
  the source at hand. The spec gives a set of bit flags over SIMPLE, HYBRID, OPTIMUS,
  COMPOSITE, SLI and CROSSFIRE, in which a zero mask is trivially present and SIMPLE is
  the type of a configuration with no flag: SIMPLE is 0 and each of the others is one
  bit of its own.
\<close>

definition LDM_GPU_TYPE_SIMPLE :: "32 word" where
  "LDM_GPU_TYPE_SIMPLE = 0"

definition LDM_GPU_TYPE_HYBRID :: "32 word" where
  "LDM_GPU_TYPE_HYBRID = 1"

definition LDM_GPU_TYPE_COMPOSITE :: "32 word" where
  "LDM_GPU_TYPE_COMPOSITE = 2"

definition LDM_GPU_TYPE_OPTIMUS :: "32 word" where
  "LDM_GPU_TYPE_OPTIMUS = 4"

definition LDM_GPU_TYPE_SLI :: "32 word" where
  "LDM_GPU_TYPE_SLI = 8"

definition LDM_GPU_TYPE_CROSSFIRE :: "32 word" where
  "LDM_GPU_TYPE_CROSSFIRE = 16"

text \<open>
  \<open>struct _LdmGPUConfig\<close>. \<open>n_gpu\<close> is a \<open>guint\<close> that receives \<open>devices->len\<close>,
  a \<open>guint\<close> too, so that nothing is truncated; it is a \<open>nat\<close> here.
\<close>

record LdmGPUConfig =
  manager :: LdmManager
  primary :: "LdmDevice option"
  secondary :: "LdmDevice option"
  n_gpu :: nat
  gpu_type :: "32 word"

text \<open>\<open>ldm_gpu_config_init\<close>, lines 210-214.\<close>

definition ldm_gpu_config_init :: "LdmGPUConfig \<Rightarrow> LdmGPUConfig" where
  "ldm_gpu_config_init self = self\<lparr>n_gpu := 0, gpu_type := LDM_GPU_TYPE_SIMPLE\<rparr>"

text \<open>
  \<open>ldm_gpu_config_search_boot\<close>, lines 224-240: the first device of the array that is
  not \<open>not_like\<close> and whose boot-VGA attribute is \<open>vga_boot\<close>, NULL when there is none.
\<close>

fun ldm_gpu_config_search_boot ::
  "LdmDevice list \<Rightarrow> bool \<Rightarrow> LdmDevice option \<Rightarrow> LdmDevice option" where
  "ldm_gpu_config_search_boot [] vga_boot not_like = None"
| "ldm_gpu_config_search_boot (device # devices) vga_boot not_like =
     (if Some device = not_like then ldm_gpu_config_search_boot devices vga_boot not_like
      else if ldm_device_has_attribute (Some device) LDM_DEVICE_ATTRIBUTE_BOOT_VGA = vga_boot
        then Some device
      else ldm_gpu_config_search_boot devices vga_boot not_like)"

text \<open>
  \<open>ldm_gpu_config_do_optimus\<close>, lines 251-271. The result is the returned
  \<open>gboolean\<close> and the configuration as the call leaves it.
\<close>

definition ldm_gpu_config_do_optimus ::
  "LdmGPUConfig \<Rightarrow> LdmDevice option \<Rightarrow> LdmDevice option \<Rightarrow> bool \<times> LdmGPUConfig" where
  "ldm_gpu_config_do_optimus self primary_dev secondary_dev =
     (if \<not> ldm_device_has_attribute primary_dev LDM_DEVICE_ATTRIBUTE_BOOT_VGA then (False, self)
      else if ldm_device_has_attribute secondary_dev LDM_DEVICE_ATTRIBUTE_BOOT_VGA then (False, self)
      else if ldm_device_get_vendor_id primary_dev \<noteq> LDM_PCI_VENDOR_ID_INTEL then (False, self)
      else if ldm_device_get_vendor_id secondary_dev \<noteq> LDM_PCI_VENDOR_ID_NVIDIA then (False, self)
      else (True, self\<lparr>gpu_type := LDM_GPU_TYPE_HYBRID OR LDM_GPU_TYPE_OPTIMUS,
                       primary := primary_dev,
                       secondary := secondary_dev\<rparr>))"

text \<open>\<open>ldm_gpu_config_do_amd_hybrid\<close>, lines 281-306.\<close>

definition ldm_gpu_config_do_amd_hybrid ::
  "LdmGPUConfig \<Rightarrow> LdmDevice option \<Rightarrow> LdmDevice option \<Rightarrow> bool \<times> LdmGPUConfig" where
  "ldm_gpu_config_do_amd_hybrid self primary_dev secondary_dev =
     (if \<not> ldm_device_has_attribute primary_dev LDM_DEVICE_ATTRIBUTE_BOOT_VGA then (False, self)
      else if ldm_device_has_attribute secondary_dev LDM_DEVICE_ATTRIBUTE_BOOT_VGA then (False, self)
      else
        let primary_vendor_id = ldm_device_get_vendor_id primary_dev
        in if primary_vendor_id \<noteq> LDM_PCI_VENDOR_ID_INTEL \<and>
              primary_vendor_id \<noteq> LDM_PCI_VENDOR_ID_AMD then (False, self)
           else if ldm_device_get_vendor_id secondary_dev \<noteq> LDM_PCI_VENDOR_ID_AMD
             then (False, self)
           else (True, self\<lparr>gpu_type := LDM_GPU_TYPE_HYBRID,
                            primary := primary_dev,
                            secondary := secondary_dev\<rparr>))"

text \<open>
  \<open>ldm_gpu_config_analyze\<close>, lines 313-375. \<open>g_message\<close> on an empty array only writes
  to the log and is left out.
\<close>

definition ldm_gpu_config_analyze :: "LdmGPUConfig \<Rightarrow> fault + LdmGPUConfig" where
  "ldm_gpu_config_analyze self0 =
     (let devices = ldm_manager_get_devices (manager self0);
          self1 = self0\<lparr>n_gpu := length devices\<rparr>
      in if n_gpu self1 < 1 then Inr self1
         else
           (case pdata devices 0 of
              Inl e \<Rightarrow> Inl e
            | Inr first \<Rightarrow>
               (let self2 = self1\<lparr>primary := Some first\<rparr>
                in if n_gpu self2 = 1 then Inr (self2\<lparr>gpu_type := LDM_GPU_TYPE_SIMPLE\<rparr>)
                   else
                     (case (case ldm_gpu_config_search_boot devices True None of
                              Some found \<Rightarrow> Inr (Some found)
                            | None \<Rightarrow> map_sum id Some (pdata devices 0)) of
                        Inl e \<Rightarrow> Inl e
                      | Inr boot_vga \<Rightarrow>
                         (let self3 = self2\<lparr>primary := boot_vga\<rparr>;
                              non_boot_vga = ldm_gpu_config_search_boot devices False boot_vga;
                              (optimus, self4) =
                                 ldm_gpu_config_do_optimus self3 boot_vga non_boot_vga
                          in if optimus then Inr self4
                             else
                               (let (amd_hybrid, self5) =
                                       ldm_gpu_config_do_amd_hybrid self4 boot_vga non_boot_vga
                                in if amd_hybrid then Inr self5
                                   else
                                     (let vendor_id = ldm_device_get_vendor_id boot_vga
                                      in if vendor_id = ldm_device_get_vendor_id non_boot_vga
                                         then
                                           (if vendor_id = LDM_PCI_VENDOR_ID_AMD
                                              then Inr (self5\<lparr>gpu_type :=
                                                LDM_GPU_TYPE_COMPOSITE OR LDM_GPU_TYPE_CROSSFIRE\<rparr>)
                                            else if vendor_id = LDM_PCI_VENDOR_ID_NVIDIA
                                              then Inr (self5\<lparr>gpu_type :=
                                                LDM_GPU_TYPE_COMPOSITE OR LDM_GPU_TYPE_SLI\<rparr>)
                                            else Inr (self5\<lparr>gpu_type := LDM_GPU_TYPE_SIMPLE\<rparr>))
                                         else Inr (self5\<lparr>gpu_type := LDM_GPU_TYPE_SIMPLE\<rparr>))))))))"

text \<open>
  \<open>ldm_gpu_config_new\<close>, lines 384-389: \<open>g_object_new\<close> hands out an instance filled
  with zeros (both device pointers NULL), runs \<open>ldm_gpu_config_init\<close> on it, stores the
  construct-only property \<open>manager\<close> and calls \<open>ldm_gpu_config_constructed\<close>, which
  runs the analysis. \<open>g_assert(manager != NULL)\<close> is the type of the argument.
\<close>

definition ldm_gpu_config_new :: "LdmManager \<Rightarrow> fault + LdmGPUConfig" where
  "ldm_gpu_config_new mgr =
     ldm_gpu_config_analyze
       ((ldm_gpu_config_init
           \<lparr>manager = mgr, primary = None, secondary = None, n_gpu = 0, gpu_type = 0\<rparr>)
        \<lparr>manager := mgr\<rparr>)"

text \<open>The spec's \<open>classify\<close>: the configuration built over a catalog with these devices.\<close>

definition classify :: "LdmDevice list \<Rightarrow> fault + LdmGPUConfig" where
  "classify devices = ldm_gpu_config_new \<lparr>pci_gpu_devices = devices\<rparr>"

subsection \<open>Accessors\<close>

text \<open>
  An \<open>LdmGPUConfig *\<close> is \<open>LdmGPUConfig option\<close>, \<open>None\<close> being NULL.
  \<open>g_return_val_if_fail(self != NULL, v)\<close> returns \<open>v\<close> on NULL. A field read with no
  such guard in front of it is a fault on NULL.
\<close>

definition ldm_gpu_config_count :: "LdmGPUConfig option \<Rightarrow> fault + nat" where
  "ldm_gpu_config_count self =
     (case self of None \<Rightarrow> Inr 0 | Some c \<Rightarrow> Inr (n_gpu c))"

definition ldm_gpu_config_get_gpu_type :: "LdmGPUConfig option \<Rightarrow> fault + 32 word" where
  "ldm_gpu_config_get_gpu_type self =
     (case self of None \<Rightarrow> Inr LDM_GPU_TYPE_SIMPLE | Some c \<Rightarrow> Inr (gpu_type c))"

definition ldm_gpu_config_has_type :: "LdmGPUConfig option \<Rightarrow> 32 word \<Rightarrow> fault + bool" where
  "ldm_gpu_config_has_type self type_mask =
     (case self of
        None \<Rightarrow> Inr False
      | Some c \<Rightarrow> if gpu_type c AND type_mask = type_mask then Inr True else Inr False)"

definition ldm_gpu_config_get_primary_device ::
  "LdmGPUConfig option \<Rightarrow> fault + LdmDevice option" where
  "ldm_gpu_config_get_primary_device self =
     (case self of None \<Rightarrow> Inr None | Some c \<Rightarrow> Inr (primary c))"

definition ldm_gpu_config_get_secondary_device ::
  "LdmGPUConfig option \<Rightarrow> fault + LdmDevice option" where
  "ldm_gpu_config_get_secondary_device self =
     (case self of None \<Rightarrow> Inr None | Some c \<Rightarrow> Inr (secondary c))"

text \<open>
  \<open>ldm_gpu_config_get_detection_device\<close>, lines 504-510: no guard of its own; after
  the call of \<open>ldm_gpu_config_has_type\<close> it reads \<open>self->secondary\<close> or
  \<open>self->primary\<close>.
\<close>

definition ldm_gpu_config_get_detection_device ::
  "LdmGPUConfig option \<Rightarrow> fault + LdmDevice option" where
  "ldm_gpu_config_get_detection_device self =
     (case ldm_gpu_config_has_type self LDM_GPU_TYPE_HYBRID of
        Inl e \<Rightarrow> Inl e
      | Inr hybrid \<Rightarrow>
          if hybrid
            then (case self of None \<Rightarrow> Inl NullDereference | Some c \<Rightarrow> Inr (secondary c))
          else (case self of None \<Rightarrow> Inl NullDereference | Some c \<Rightarrow> Inr (primary c)))"

subsection \<open>The cascade over what device.c does on NULL\<close>

text \<open>
  gpu-config.c passes the non-boot device, which may be NULL, to
  \<open>ldm_device_has_attribute\<close> and \<open>ldm_device_get_vendor_id\<close> with no test of its own.
  Whether the cascade can fault is therefore decided by what these two functions of
  device.c do on NULL. Here their two results on NULL are a parameter, each a value or a
  fault, and the rules and the analysis hand a fault on to the caller.
\<close>

record device_c =
  has_attribute_null :: "fault + bool"
  get_vendor_id_null :: "fault + int"

text \<open>On a device the accessors read the field, as above; on NULL they do what \<open>dc\<close> says.\<close>

fun ldm_device_has_attribute_on ::
  "device_c \<Rightarrow> LdmDevice option \<Rightarrow> LdmDeviceAttribute \<Rightarrow> fault + bool" where
  "ldm_device_has_attribute_on dc None attr = has_attribute_null dc"
| "ldm_device_has_attribute_on dc (Some device) LDM_DEVICE_ATTRIBUTE_BOOT_VGA =
     Inr (has_boot_vga device)"

fun ldm_device_get_vendor_id_on :: "device_c \<Rightarrow> LdmDevice option \<Rightarrow> fault + int" where
  "ldm_device_get_vendor_id_on dc None = get_vendor_id_null dc"
| "ldm_device_get_vendor_id_on dc (Some device) = Inr (vendor device)"

text \<open>
  Modelled from the spec: device.c is not part of the source at hand. The spec requires
  that a rule evaluated with a null device fails safely; the accessors return FALSE and 0
  on NULL, as \<open>ldm_device_has_attribute\<close> and \<open>ldm_device_get_vendor_id\<close> above do.
\<close>

definition device_c_spec :: device_c where
  "device_c_spec = \<lparr>has_attribute_null = Inr False, get_vendor_id_null = Inr 0\<rparr>"

text \<open>
  \<open>ldm_gpu_config_do_optimus\<close>, lines 251-271, call by call: a call that faults ends
  the function.
\<close>

definition ldm_gpu_config_do_optimus_on ::
  "device_c \<Rightarrow> LdmGPUConfig \<Rightarrow> LdmDevice option \<Rightarrow> LdmDevice option \<Rightarrow>
     fault + bool \<times> LdmGPUConfig" where
  "ldm_gpu_config_do_optimus_on dc self primary_dev secondary_dev =
     (case ldm_device_has_attribute_on dc primary_dev LDM_DEVICE_ATTRIBUTE_BOOT_VGA of
        Inl e \<Rightarrow> Inl e
      | Inr primary_boot \<Rightarrow>
         (if \<not> primary_boot then Inr (False, self)
          else
            (case ldm_device_has_attribute_on dc secondary_dev LDM_DEVICE_ATTRIBUTE_BOOT_VGA of
               Inl e \<Rightarrow> Inl e
             | Inr secondary_boot \<Rightarrow>
                (if secondary_boot then Inr (False, self)
                 else
                   (case ldm_device_get_vendor_id_on dc primary_dev of
                      Inl e \<Rightarrow> Inl e
                    | Inr primary_vendor_id \<Rightarrow>
                       (if primary_vendor_id \<noteq> LDM_PCI_VENDOR_ID_INTEL then Inr (False, self)
                        else
                          (case ldm_device_get_vendor_id_on dc secondary_dev of
                             Inl e \<Rightarrow> Inl e
                           | Inr secondary_vendor_id \<Rightarrow>
                              (if secondary_vendor_id \<noteq> LDM_PCI_VENDOR_ID_NVIDIA
                                 then Inr (False, self)
                               else Inr (True,
                                 self\<lparr>gpu_type := LDM_GPU_TYPE_HYBRID OR LDM_GPU_TYPE_OPTIMUS,
                                      primary := primary_dev,
                                      secondary := secondary_dev\<rparr>)))))))))"

text \<open>\<open>ldm_gpu_config_do_amd_hybrid\<close>, lines 281-306, in the same way.\<close>

definition ldm_gpu_config_do_amd_hybrid_on ::
  "device_c \<Rightarrow> LdmGPUConfig \<Rightarrow> LdmDevice option \<Rightarrow> LdmDevice option \<Rightarrow>
     fault + bool \<times> LdmGPUConfig" where
  "ldm_gpu_config_do_amd_hybrid_on dc self primary_dev secondary_dev =
     (case ldm_device_has_attribute_on dc primary_dev LDM_DEVICE_ATTRIBUTE_BOOT_VGA of
        Inl e \<Rightarrow> Inl e
      | Inr primary_boot \<Rightarrow>
         (if \<not> primary_boot then Inr (False, self)
          else
            (case ldm_device_has_attribute_on dc secondary_dev LDM_DEVICE_ATTRIBUTE_BOOT_VGA of
               Inl e \<Rightarrow> Inl e
             | Inr secondary_boot \<Rightarrow>
                (if secondary_boot then Inr (False, self)
                 else
                   (case ldm_device_get_vendor_id_on dc primary_dev of
                      Inl e \<Rightarrow> Inl e
                    | Inr primary_vendor_id \<Rightarrow>
                       (if primary_vendor_id \<noteq> LDM_PCI_VENDOR_ID_INTEL \<and>
                           primary_vendor_id \<noteq> LDM_PCI_VENDOR_ID_AMD then Inr (False, self)
                        else
                          (case ldm_device_get_vendor_id_on dc secondary_dev of
                             Inl e \<Rightarrow> Inl e
                           | Inr secondary_vendor_id \<Rightarrow>
                              (if secondary_vendor_id \<noteq> LDM_PCI_VENDOR_ID_AMD
                                 then Inr (False, self)
                               else Inr (True,
                                 self\<lparr>gpu_type := LDM_GPU_TYPE_HYBRID,
                                      primary := primary_dev,
                                      secondary := secondary_dev\<rparr>)))))))))"

text \<open>
  \<open>ldm_gpu_config_analyze\<close>, lines 313-375, in the same way. The search calls the
  accessor on entries of the array only, which are devices. The composite test reads the
  vendor of the boot device and then the vendor of the non-boot device.
\<close>

definition ldm_gpu_config_analyze_on :: "device_c \<Rightarrow> LdmGPUConfig \<Rightarrow> fault + LdmGPUConfig" where
  "ldm_gpu_config_analyze_on dc self0 =
     (let devices = ldm_manager_get_devices (manager self0);
          self1 = self0\<lparr>n_gpu := length devices\<rparr>
      in if n_gpu self1 < 1 then Inr self1
         else
           (case pdata devices 0 of
              Inl e \<Rightarrow> Inl e
            | Inr first \<Rightarrow>
               (let self2 = self1\<lparr>primary := Some first\<rparr>
                in if n_gpu self2 = 1 then Inr (self2\<lparr>gpu_type := LDM_GPU_TYPE_SIMPLE\<rparr>)
                   else
                     (case (case ldm_gpu_config_search_boot devices True None of
                              Some found \<Rightarrow> Inr (Some found)
                            | None \<Rightarrow> map_sum id Some (pdata devices 0)) of
                        Inl e \<Rightarrow> Inl e
                      | Inr boot_vga \<Rightarrow>
                         (let self3 = self2\<lparr>primary := boot_vga\<rparr>;
                              non_boot_vga = ldm_gpu_config_search_boot devices False boot_vga
                          in
                            (case ldm_gpu_config_do_optimus_on dc self3 boot_vga non_boot_vga of
                               Inl e \<Rightarrow> Inl e
                             | Inr (optimus, self4) \<Rightarrow>
                                (if optimus then Inr self4
                                 else
                                   (case ldm_gpu_config_do_amd_hybrid_on dc self4 boot_vga
                                           non_boot_vga of
                                      Inl e \<Rightarrow> Inl e
                                    | Inr (amd_hybrid, self5) \<Rightarrow>
                                       (if amd_hybrid then Inr self5
                                        else
                                          (case ldm_device_get_vendor_id_on dc boot_vga of
                                             Inl e \<Rightarrow> Inl e
                                           | Inr vendor_id \<Rightarrow>
                                              (case ldm_device_get_vendor_id_on dc non_boot_vga of
                                                 Inl e \<Rightarrow> Inl e
                                               | Inr other_vendor_id \<Rightarrow>
                                                  (if vendor_id = other_vendor_id
                                                   then
                                                     (if vendor_id = LDM_PCI_VENDOR_ID_AMD
                                                        then Inr (self5\<lparr>gpu_type :=
                                                          LDM_GPU_TYPE_COMPOSITE OR
                                                          LDM_GPU_TYPE_CROSSFIRE\<rparr>)
                                                      else if vendor_id = LDM_PCI_VENDOR_ID_NVIDIA
                                                        then Inr (self5\<lparr>gpu_type :=
                                                          LDM_GPU_TYPE_COMPOSITE OR
                                                          LDM_GPU_TYPE_SLI\<rparr>)
                                                      else Inr (self5\<lparr>gpu_type :=
                                                          LDM_GPU_TYPE_SIMPLE\<rparr>))
                                                   else Inr (self5\<lparr>gpu_type :=
                                                          LDM_GPU_TYPE_SIMPLE\<rparr>)))))))))))))"

text \<open>\<open>ldm_gpu_config_new\<close> and \<open>classify\<close> over the same parameter.\<close>

definition ldm_gpu_config_new_on :: "device_c \<Rightarrow> LdmManager \<Rightarrow> fault + LdmGPUConfig" where
  "ldm_gpu_config_new_on dc mgr =
     ldm_gpu_config_analyze_on dc
       ((ldm_gpu_config_init
           \<lparr>manager = mgr, primary = None, secondary = None, n_gpu = 0, gpu_type = 0\<rparr>)
        \<lparr>manager := mgr\<rparr>)"

definition classify_on :: "device_c \<Rightarrow> LdmDevice list \<Rightarrow> fault + LdmGPUConfig" where
  "classify_on dc devices = ldm_gpu_config_new_on dc \<lparr>pci_gpu_devices = devices\<rparr>"

subsection \<open>Devices to run the classifier on\<close>

text \<open>
  The number in \<open>dev_addr\<close> tells the objects apart; two devices that are used in one
  sequence have different numbers.
\<close>

abbreviation intel_boot :: LdmDevice where
  "intel_boot \<equiv> \<lparr>dev_addr = 0, vendor = LDM_PCI_VENDOR_ID_INTEL, has_boot_vga = True\<rparr>"

abbreviation nvidia_plain :: LdmDevice where
  "nvidia_plain \<equiv> \<lparr>dev_addr = 1, vendor = LDM_PCI_VENDOR_ID_NVIDIA, has_boot_vga = False\<rparr>"

abbreviation nvidia_first :: LdmDevice where
  "nvidia_first \<equiv> \<lparr>dev_addr = 0, vendor = LDM_PCI_VENDOR_ID_NVIDIA, has_boot_vga = False\<rparr>"

abbreviation amd_boot :: LdmDevice where
  "amd_boot \<equiv> \<lparr>dev_addr = 0, vendor = LDM_PCI_VENDOR_ID_AMD, has_boot_vga = True\<rparr>"

abbreviation amd_plain :: LdmDevice where
  "amd_plain \<equiv> \<lparr>dev_addr = 1, vendor = LDM_PCI_VENDOR_ID_AMD, has_boot_vga = False\<rparr>"

abbreviation amd_boot_too :: LdmDevice where
  "amd_boot_too \<equiv> \<lparr>dev_addr = 1, vendor = LDM_PCI_VENDOR_ID_AMD, has_boot_vga = True\<rparr>"

section \<open>Properties\<close>

subsection \<open>Auxiliary facts\<close>

lemmas vendor_defs =
  LDM_PCI_VENDOR_ID_INTEL_def LDM_PCI_VENDOR_ID_AMD_def LDM_PCI_VENDOR_ID_NVIDIA_def

lemmas type_defs =
  LDM_GPU_TYPE_SIMPLE_def LDM_GPU_TYPE_HYBRID_def LDM_GPU_TYPE_COMPOSITE_def
  LDM_GPU_TYPE_OPTIMUS_def LDM_GPU_TYPE_SLI_def LDM_GPU_TYPE_CROSSFIRE_def

lemmas classify_defs =
  classify_def ldm_gpu_config_new_def ldm_gpu_config_init_def
  ldm_gpu_config_analyze_def ldm_manager_get_devices_def pdata_def

lemmas rule_defs = ldm_gpu_config_do_optimus_def ldm_gpu_config_do_amd_hybrid_def

text \<open>What the search returns is an entry of the array, with the attribute asked for.\<close>

lemma search_boot_Some:
  "ldm_gpu_config_search_boot devices vga_boot not_like = Some d \<Longrightarrow>
     d \<in> set devices \<and> has_boot_vga d = vga_boot \<and> Some d \<noteq> not_like"
  by (induction devices) (auto split: if_splits)

lemma search_boot_True_in_set:
  assumes "devices \<noteq> []"
  shows "(case ldm_gpu_config_search_boot devices True None of
            Some b \<Rightarrow> b | None \<Rightarrow> devices ! 0) \<in> set devices"
  using assms search_boot_Some [of devices True None]
  by (cases "ldm_gpu_config_search_boot devices True None") (simp_all add: hd_conv_nth [symmetric])

text \<open>Each of the two hybrid rules either leaves the configuration alone or fills it in.\<close>

lemma do_optimus_cases:
  "ldm_gpu_config_do_optimus self p s = (False, self) \<or>
   (s \<noteq> None \<and> ldm_gpu_config_do_optimus self p s =
      (True, self\<lparr>gpu_type := LDM_GPU_TYPE_HYBRID OR LDM_GPU_TYPE_OPTIMUS,
                   primary := p, secondary := s\<rparr>))"
  by (cases s) (simp_all add: ldm_gpu_config_do_optimus_def vendor_defs)

lemma do_amd_hybrid_cases:
  "ldm_gpu_config_do_amd_hybrid self p s = (False, self) \<or>
   (s \<noteq> None \<and> ldm_gpu_config_do_amd_hybrid self p s =
      (True, self\<lparr>gpu_type := LDM_GPU_TYPE_HYBRID, primary := p, secondary := s\<rparr>))"
  by (cases s) (simp_all add: ldm_gpu_config_do_amd_hybrid_def vendor_defs Let_def)

lemma hybrid_bit:
  fixes w :: "32 word"
  shows "(w AND LDM_GPU_TYPE_HYBRID = LDM_GPU_TYPE_HYBRID) = (w AND LDM_GPU_TYPE_HYBRID \<noteq> 0)"
  by (simp add: LDM_GPU_TYPE_HYBRID_def and_one_eq)

text \<open>The analysis of an array of two or more devices, with both index reads resolved.\<close>

lemma analyze_many:
  assumes len: "2 \<le> length devices"
    and mgr: "ldm_manager_get_devices (manager self0) = devices"
    and boot: "boot = (case ldm_gpu_config_search_boot devices True None of
                          Some b \<Rightarrow> b | None \<Rightarrow> devices ! 0)"
    and nb: "nb = ldm_gpu_config_search_boot devices False (Some boot)"
    and self3: "self3 = self0\<lparr>n_gpu := length devices, primary := Some boot\<rparr>"
  shows "ldm_gpu_config_analyze self0 =
    (if fst (ldm_gpu_config_do_optimus self3 (Some boot) nb)
       then Inr (snd (ldm_gpu_config_do_optimus self3 (Some boot) nb))
     else if fst (ldm_gpu_config_do_amd_hybrid
                    (snd (ldm_gpu_config_do_optimus self3 (Some boot) nb)) (Some boot) nb)
       then Inr (snd (ldm_gpu_config_do_amd_hybrid
                    (snd (ldm_gpu_config_do_optimus self3 (Some boot) nb)) (Some boot) nb))
     else Inr ((snd (ldm_gpu_config_do_amd_hybrid
                    (snd (ldm_gpu_config_do_optimus self3 (Some boot) nb)) (Some boot) nb))
           \<lparr>gpu_type :=
              if vendor boot = ldm_device_get_vendor_id nb \<and> vendor boot = LDM_PCI_VENDOR_ID_AMD
                then LDM_GPU_TYPE_COMPOSITE OR LDM_GPU_TYPE_CROSSFIRE
              else if vendor boot = ldm_device_get_vendor_id nb \<and>
                      vendor boot = LDM_PCI_VENDOR_ID_NVIDIA
                then LDM_GPU_TYPE_COMPOSITE OR LDM_GPU_TYPE_SLI
              else LDM_GPU_TYPE_SIMPLE\<rparr>))"
proof -
  from len have l1: "devices \<noteq> []" "length devices \<noteq> Suc 0"
    by auto
  show ?thesis
  proof (cases "ldm_gpu_config_search_boot devices True None")
    case None
    then have b: "boot = devices ! 0" using boot by simp
    show ?thesis
      unfolding ldm_gpu_config_analyze_def
      by (simp add: mgr l1 pdata_def None Let_def b nb self3 split_def)
  next
    case (Some found)
    then have b: "boot = found" using boot by simp
    show ?thesis
      unfolding ldm_gpu_config_analyze_def
      by (simp add: mgr l1 pdata_def Some Let_def b nb self3 split_def)
  qed
qed

lemma classify_Nil:
  "classify [] = Inr \<lparr>manager = \<lparr>pci_gpu_devices = []\<rparr>, primary = None, secondary = None,
     n_gpu = 0, gpu_type = LDM_GPU_TYPE_SIMPLE\<rparr>"
  by (simp add: classify_defs)

lemma classify_single:
  "classify [d] = Inr \<lparr>manager = \<lparr>pci_gpu_devices = [d]\<rparr>, primary = Some d, secondary = None,
     n_gpu = 1, gpu_type = LDM_GPU_TYPE_SIMPLE\<rparr>"
  by (simp add: classify_defs)

lemma classify_few:
  assumes "length devices \<le> 1"
  shows "\<exists>c. classify devices = Inr c \<and> n_gpu c = length devices \<and>
           gpu_type c = LDM_GPU_TYPE_SIMPLE \<and> secondary c = None \<and>
           primary c = (if devices = [] then None else Some (devices ! 0))"
proof -
  from assms have "devices = [] \<or> (\<exists>d. devices = [d])"
    by (cases devices; cases "tl devices") auto
  then show ?thesis
    by (auto simp: classify_Nil classify_single)
qed

text \<open>
  Two or more devices: the primary device is the boot device, an entry of the array, and
  the type is one of five; only the two hybrid results have a secondary device, and it
  is the non-boot device that the search found.
\<close>

lemma classify_many:
  assumes len: "2 \<le> length devices"
  shows "\<exists>c boot nb. classify devices = Inr c \<and> n_gpu c = length devices \<and>
     primary c = Some boot \<and> boot \<in> set devices \<and>
     nb = ldm_gpu_config_search_boot devices False (Some boot) \<and>
     ((gpu_type c = LDM_GPU_TYPE_HYBRID OR LDM_GPU_TYPE_OPTIMUS \<and> secondary c = nb \<and> nb \<noteq> None) \<or>
      (gpu_type c = LDM_GPU_TYPE_HYBRID \<and> secondary c = nb \<and> nb \<noteq> None) \<or>
      (gpu_type c = LDM_GPU_TYPE_COMPOSITE OR LDM_GPU_TYPE_CROSSFIRE \<and> secondary c = None) \<or>
      (gpu_type c = LDM_GPU_TYPE_COMPOSITE OR LDM_GPU_TYPE_SLI \<and> secondary c = None) \<or>
      (gpu_type c = LDM_GPU_TYPE_SIMPLE \<and> secondary c = None))"
proof -
  define self0 where "self0 = (ldm_gpu_config_init
           \<lparr>manager = \<lparr>pci_gpu_devices = devices\<rparr>, primary = None, secondary = None,
            n_gpu = 0, gpu_type = 0\<rparr>) \<lparr>manager := \<lparr>pci_gpu_devices = devices\<rparr>\<rparr>"
  define boot where "boot = (case ldm_gpu_config_search_boot devices True None of
                          Some b \<Rightarrow> b | None \<Rightarrow> devices ! 0)"
  define nb where "nb = ldm_gpu_config_search_boot devices False (Some boot)"
  define self3 where "self3 = self0\<lparr>n_gpu := length devices, primary := Some boot\<rparr>"
  have mgr: "ldm_manager_get_devices (manager self0) = devices"
    by (simp add: self0_def ldm_manager_get_devices_def)
  have sec0: "secondary self3 = None" and n3: "n_gpu self3 = length devices"
    and p3: "primary self3 = Some boot"
    by (simp_all add: self3_def self0_def ldm_gpu_config_init_def)
  have in_set: "boot \<in> set devices"
    unfolding boot_def using len by (intro search_boot_True_in_set) auto
  note eq = analyze_many [OF len mgr boot_def nb_def self3_def]
  have cl: "classify devices = ldm_gpu_config_analyze self0"
    by (simp add: classify_def ldm_gpu_config_new_def self0_def)
  from do_optimus_cases [of self3 "Some boot" nb] show ?thesis
  proof
    assume "nb \<noteq> None \<and> ldm_gpu_config_do_optimus self3 (Some boot) nb =
      (True, self3\<lparr>gpu_type := LDM_GPU_TYPE_HYBRID OR LDM_GPU_TYPE_OPTIMUS,
                   primary := Some boot, secondary := nb\<rparr>)"
    then show ?thesis
      using in_set n3 by (simp add: cl eq nb_def [symmetric])
  next
    assume miss: "ldm_gpu_config_do_optimus self3 (Some boot) nb = (False, self3)"
    from do_amd_hybrid_cases [of self3 "Some boot" nb] show ?thesis
    proof
      assume "nb \<noteq> None \<and> ldm_gpu_config_do_amd_hybrid self3 (Some boot) nb =
        (True, self3\<lparr>gpu_type := LDM_GPU_TYPE_HYBRID, primary := Some boot, secondary := nb\<rparr>)"
      then show ?thesis
        using in_set n3 by (simp add: cl eq miss nb_def [symmetric])
    next
      assume "ldm_gpu_config_do_amd_hybrid self3 (Some boot) nb = (False, self3)"
      then show ?thesis
        using in_set n3 sec0 p3 by (simp add: cl eq miss nb_def [symmetric])
    qed
  qed
qed

lemma classify_n_gpu: "classify devices = Inr c \<Longrightarrow> n_gpu c = length devices"
  using classify_many [of devices] classify_few [of devices]
  by (cases "2 \<le> length devices") auto

lemma classify_gpu_type:
  assumes "classify devices = Inr c"
  shows "gpu_type c \<in> {LDM_GPU_TYPE_SIMPLE, LDM_GPU_TYPE_HYBRID,
           LDM_GPU_TYPE_HYBRID OR LDM_GPU_TYPE_OPTIMUS,
           LDM_GPU_TYPE_COMPOSITE OR LDM_GPU_TYPE_CROSSFIRE,
           LDM_GPU_TYPE_COMPOSITE OR LDM_GPU_TYPE_SLI}"
proof (cases "2 \<le> length devices")
  case True
  from classify_many [OF this] assms show ?thesis by auto
next
  case False
  then have "length devices \<le> 1" by simp
  from classify_few [OF this] assms show ?thesis by auto
qed

subsection \<open>C1: two AMD devices, the first one the boot device\<close>

text \<open>
  C1 as stated fails. For an AMD device with the boot-VGA attribute followed by an AMD
  device without it, the type of the configuration is HYBRID, which is not
  COMPOSITE|CROSSFIRE: the AMD hybrid rule comes before the composite test and accepts
  an AMD boot device.
\<close>

theorem C1_counterexample:
  "map_sum id gpu_type (classify [amd_boot, amd_plain])
     = Inr LDM_GPU_TYPE_HYBRID \<and>
   LDM_GPU_TYPE_HYBRID \<noteq> LDM_GPU_TYPE_COMPOSITE OR LDM_GPU_TYPE_CROSSFIRE"
  by (simp add: classify_defs rule_defs vendor_defs type_defs)

text \<open>
  C1, amended: for two AMD devices of which exactly the first carries the boot-VGA
  attribute, classify returns a configuration whose type is HYBRID, with the first
  device as primary and the second as secondary device.
\<close>

theorem C1_amd_pair_is_hybrid:
  assumes "vendor a = LDM_PCI_VENDOR_ID_AMD" and "has_boot_vga a"
    and "vendor b = LDM_PCI_VENDOR_ID_AMD" and "\<not> has_boot_vga b"
  shows "classify [a, b] =
     Inr \<lparr>manager = \<lparr>pci_gpu_devices = [a, b]\<rparr>, primary = Some a, secondary = Some b,
          n_gpu = 2, gpu_type = LDM_GPU_TYPE_HYBRID\<rparr>"
proof -
  from assms have "a \<noteq> b" by auto
  with assms show ?thesis
    by (simp add: classify_defs rule_defs vendor_defs)
qed

theorem C1_amd_pair_is_hybrid_witness:
  "classify [amd_boot, amd_plain] =
     Inr \<lparr>manager = \<lparr>pci_gpu_devices = [amd_boot, amd_plain]\<rparr>,
          primary = Some amd_boot,
          secondary = Some amd_plain,
          n_gpu = 2, gpu_type = LDM_GPU_TYPE_HYBRID\<rparr>"
  using C1_amd_pair_is_hybrid [of "amd_boot" "amd_plain"]
  by simp

subsection \<open>C2: accessors on a NULL configuration\<close>

text \<open>
  C2: every accessor called on a NULL configuration should return its default. The
  guarded accessors do (0, SIMPLE, FALSE, NULL, NULL), but
  \<open>ldm_gpu_config_get_detection_device\<close> has no guard and reads \<open>self->primary\<close>
  through the NULL pointer.
\<close>

theorem C2_detection_device_null_faults:
  "ldm_gpu_config_get_detection_device None = Inl NullDereference \<and>
   ldm_gpu_config_count None = Inr 0 \<and>
   ldm_gpu_config_get_gpu_type None = Inr LDM_GPU_TYPE_SIMPLE \<and>
   ldm_gpu_config_has_type None type_mask = Inr False \<and>
   ldm_gpu_config_get_primary_device None = Inr None \<and>
   ldm_gpu_config_get_secondary_device None = Inr None"
  by (simp add: ldm_gpu_config_get_detection_device_def ldm_gpu_config_has_type_def
        ldm_gpu_config_count_def ldm_gpu_config_get_gpu_type_def
        ldm_gpu_config_get_primary_device_def ldm_gpu_config_get_secondary_device_def)

subsection \<open>C3: the detection device\<close>

text \<open>
  C3: on every configuration, the detection device is the secondary device when the
  HYBRID bit of the type is set and the primary device otherwise, whatever the other
  bits are.
\<close>

theorem C3_detection_device:
  "ldm_gpu_config_get_detection_device (Some c) =
     Inr (if gpu_type c AND LDM_GPU_TYPE_HYBRID \<noteq> 0 then secondary c else primary c)"
  by (simp add: ldm_gpu_config_get_detection_device_def ldm_gpu_config_has_type_def hybrid_bit)

theorem C3_detection_device_witness:
  "ldm_gpu_config_get_detection_device
     (Some \<lparr>manager = \<lparr>pci_gpu_devices = []\<rparr>, primary = Some nvidia_first, secondary = None,
            n_gpu = 2, gpu_type = LDM_GPU_TYPE_COMPOSITE OR LDM_GPU_TYPE_SLI\<rparr>)
     = Inr (Some nvidia_first) \<and>
   ldm_gpu_config_get_detection_device
     (Some \<lparr>manager = \<lparr>pci_gpu_devices = []\<rparr>, primary = Some intel_boot, secondary = Some nvidia_plain,
            n_gpu = 2, gpu_type = LDM_GPU_TYPE_HYBRID OR LDM_GPU_TYPE_OPTIMUS\<rparr>)
     = Inr (Some nvidia_plain)"
  using
    C3_detection_device [of "\<lparr>manager = \<lparr>pci_gpu_devices = []\<rparr>, primary = Some nvidia_first,
      secondary = None, n_gpu = 2, gpu_type = LDM_GPU_TYPE_COMPOSITE OR LDM_GPU_TYPE_SLI\<rparr>"]
    C3_detection_device [of "\<lparr>manager = \<lparr>pci_gpu_devices = []\<rparr>, primary = Some intel_boot,
      secondary = Some nvidia_plain, n_gpu = 2,
      gpu_type = LDM_GPU_TYPE_HYBRID OR LDM_GPU_TYPE_OPTIMUS\<rparr>"]
  by (simp add: type_defs)

subsection \<open>C4: classification is total\<close>

text \<open>
  With the accessors of the spec's model, the cascade over a parameter is the cascade
  defined first.
\<close>

lemmas on_defs =
  classify_on_def ldm_gpu_config_new_on_def ldm_gpu_config_init_def
  ldm_gpu_config_analyze_on_def ldm_manager_get_devices_def pdata_def

lemmas rule_on_defs = ldm_gpu_config_do_optimus_on_def ldm_gpu_config_do_amd_hybrid_on_def

lemma has_attribute_on_spec:
  "ldm_device_has_attribute_on device_c_spec p attr = Inr (ldm_device_has_attribute p attr)"
  by (cases p; cases attr) (simp_all add: device_c_spec_def)

lemma get_vendor_id_on_spec:
  "ldm_device_get_vendor_id_on device_c_spec p = Inr (ldm_device_get_vendor_id p)"
  by (cases p) (simp_all add: device_c_spec_def)

lemma do_optimus_on_spec:
  "ldm_gpu_config_do_optimus_on device_c_spec self p s = Inr (ldm_gpu_config_do_optimus self p s)"
  by (simp add: ldm_gpu_config_do_optimus_on_def ldm_gpu_config_do_optimus_def
        has_attribute_on_spec get_vendor_id_on_spec)

lemma do_amd_hybrid_on_spec:
  "ldm_gpu_config_do_amd_hybrid_on device_c_spec self p s =
     Inr (ldm_gpu_config_do_amd_hybrid self p s)"
  by (simp add: ldm_gpu_config_do_amd_hybrid_on_def ldm_gpu_config_do_amd_hybrid_def
        has_attribute_on_spec get_vendor_id_on_spec Let_def)

lemma analyze_on_spec:
  "ldm_gpu_config_analyze_on device_c_spec self0 = ldm_gpu_config_analyze self0"
  unfolding ldm_gpu_config_analyze_on_def ldm_gpu_config_analyze_def
  by (simp add: do_optimus_on_spec do_amd_hybrid_on_spec get_vendor_id_on_spec Let_def split_def
        cong: sum.case_cong if_cong)

lemma classify_on_spec: "classify_on device_c_spec devices = classify devices"
  by (simp add: classify_on_def classify_def ldm_gpu_config_new_on_def ldm_gpu_config_new_def
        analyze_on_spec)











text \<open>
  The other direction: where an accessor faults on NULL, classify faults on two devices
  that both carry the boot-VGA attribute.
\<close>

lemma classify_on_fault:
  assumes "has_attribute_null dc = Inl e \<or>
           (has_attribute_null dc = Inr b \<and> get_vendor_id_null dc = Inl e)"
  shows "classify_on dc [amd_boot, amd_boot_too] = Inl e"
  using assms
  by (cases b) (auto simp add: on_defs rule_on_defs vendor_defs Let_def)



subsection \<open>C5: Optimus\<close>

text \<open>
  C5: for an Intel device with the boot-VGA attribute followed by an NVIDIA device
  without it, classify returns a configuration of type HYBRID|OPTIMUS whose primary
  device is the Intel device and whose secondary device is the NVIDIA device.
\<close>

theorem C5_optimus:
  assumes "vendor intel = LDM_PCI_VENDOR_ID_INTEL" and "has_boot_vga intel"
    and "vendor nvidia = LDM_PCI_VENDOR_ID_NVIDIA" and "\<not> has_boot_vga nvidia"
  shows "classify [intel, nvidia] =
     Inr \<lparr>manager = \<lparr>pci_gpu_devices = [intel, nvidia]\<rparr>, primary = Some intel,
          secondary = Some nvidia, n_gpu = 2,
          gpu_type = LDM_GPU_TYPE_HYBRID OR LDM_GPU_TYPE_OPTIMUS\<rparr>"
proof -
  from assms have "intel \<noteq> nvidia" by auto
  with assms show ?thesis
    by (simp add: classify_defs rule_defs vendor_defs)
qed

theorem C5_optimus_witness:
  "classify [intel_boot, nvidia_plain] =
     Inr \<lparr>manager = \<lparr>pci_gpu_devices = [intel_boot, nvidia_plain]\<rparr>,
          primary = Some intel_boot,
          secondary = Some nvidia_plain,
          n_gpu = 2, gpu_type = LDM_GPU_TYPE_HYBRID OR LDM_GPU_TYPE_OPTIMUS\<rparr>"
  using C5_optimus [of "intel_boot" "nvidia_plain"]
  by simp

subsection \<open>C6: the boot device is found by its attribute\<close>

text \<open>
  C6: for an Intel device with the boot-VGA attribute and an NVIDIA device without it,
  classify on the sequence that starts with the NVIDIA device returns the same count,
  type, primary and secondary device as on the sequence that starts with the Intel
  device, and the primary device is the Intel device.
\<close>

theorem C6_order_independence:
  assumes "vendor intel = LDM_PCI_VENDOR_ID_INTEL" and "has_boot_vga intel"
    and "vendor nvidia = LDM_PCI_VENDOR_ID_NVIDIA" and "\<not> has_boot_vga nvidia"
  shows "\<exists>c c'. classify [nvidia, intel] = Inr c \<and> classify [intel, nvidia] = Inr c' \<and>
           n_gpu c = n_gpu c' \<and> gpu_type c = gpu_type c' \<and>
           primary c = primary c' \<and> secondary c = secondary c' \<and>
           primary c = Some intel"
proof -
  from assms have "intel \<noteq> nvidia" by auto
  with assms have
    "classify [nvidia, intel] =
       Inr \<lparr>manager = \<lparr>pci_gpu_devices = [nvidia, intel]\<rparr>, primary = Some intel,
          secondary = Some nvidia, n_gpu = 2,
          gpu_type = LDM_GPU_TYPE_HYBRID OR LDM_GPU_TYPE_OPTIMUS\<rparr>"
    "classify [intel, nvidia] =
       Inr \<lparr>manager = \<lparr>pci_gpu_devices = [intel, nvidia]\<rparr>, primary = Some intel,
          secondary = Some nvidia, n_gpu = 2,
          gpu_type = LDM_GPU_TYPE_HYBRID OR LDM_GPU_TYPE_OPTIMUS\<rparr>"
    by (simp_all add: classify_defs rule_defs vendor_defs)
  then show ?thesis by simp
qed

theorem C6_order_independence_witness:
  "\<exists>c c'. classify [nvidia_plain, intel_boot] = Inr c \<and>
           classify [intel_boot, nvidia_plain] = Inr c' \<and>
           n_gpu c = n_gpu c' \<and> gpu_type c = gpu_type c' \<and>
           primary c = primary c' \<and> secondary c = secondary c' \<and>
           primary c = Some intel_boot"
  using C6_order_independence [of "intel_boot" "nvidia_plain"]
  by simp

subsection \<open>C7: the bits of the type\<close>

text \<open>
  C7: in every configuration that classify returns, the OPTIMUS bit is set only together
  with the HYBRID bit, and the SLI bit or the CROSSFIRE bit only together with the
  COMPOSITE bit.
\<close>

theorem C7_type_invariants:
  assumes "classify devices = Inr c"
  shows "(gpu_type c AND LDM_GPU_TYPE_OPTIMUS \<noteq> 0 \<longrightarrow>
            gpu_type c AND LDM_GPU_TYPE_HYBRID \<noteq> 0) \<and>
         (gpu_type c AND LDM_GPU_TYPE_SLI \<noteq> 0 \<or> gpu_type c AND LDM_GPU_TYPE_CROSSFIRE \<noteq> 0 \<longrightarrow>
            gpu_type c AND LDM_GPU_TYPE_COMPOSITE \<noteq> 0)"
proof -
  from classify_gpu_type [OF assms]
  have "gpu_type c = 0 \<or> gpu_type c = 1 \<or> gpu_type c = 5 \<or> gpu_type c = 18 \<or> gpu_type c = 10"
    by (simp add: type_defs)
  then show ?thesis
    by (elim disjE) (simp_all add: type_defs)
qed

text \<open>
  Run on an Optimus pair (OPTIMUS and HYBRID set) and on two NVIDIA devices without the
  boot-VGA attribute (SLI and COMPOSITE set).
\<close>

theorem C7_type_invariants_witness:
  "classify [intel_boot, nvidia_plain] =
     Inr \<lparr>manager = \<lparr>pci_gpu_devices = [intel_boot, nvidia_plain]\<rparr>,
          primary = Some intel_boot, secondary = Some nvidia_plain, n_gpu = 2, gpu_type = 5\<rparr> \<and>
   (5 :: 32 word) AND LDM_GPU_TYPE_OPTIMUS \<noteq> 0 \<and>
   (5 :: 32 word) AND LDM_GPU_TYPE_HYBRID \<noteq> 0 \<and>
   classify [nvidia_first, nvidia_plain] =
     Inr \<lparr>manager = \<lparr>pci_gpu_devices = [nvidia_first, nvidia_plain]\<rparr>,
          primary = Some nvidia_first, secondary = None, n_gpu = 2, gpu_type = 10\<rparr> \<and>
   (10 :: 32 word) AND LDM_GPU_TYPE_SLI \<noteq> 0 \<and>
   (10 :: 32 word) AND LDM_GPU_TYPE_COMPOSITE \<noteq> 0"
proof -
  have o: "classify [intel_boot, nvidia_plain] =
     Inr \<lparr>manager = \<lparr>pci_gpu_devices = [intel_boot, nvidia_plain]\<rparr>,
          primary = Some intel_boot, secondary = Some nvidia_plain, n_gpu = 2, gpu_type = 5\<rparr>"
    by (simp add: classify_defs rule_defs vendor_defs type_defs)
  have s: "classify [nvidia_first, nvidia_plain] =
     Inr \<lparr>manager = \<lparr>pci_gpu_devices = [nvidia_first, nvidia_plain]\<rparr>,
          primary = Some nvidia_first, secondary = None, n_gpu = 2, gpu_type = 10\<rparr>"
    by (simp add: classify_defs rule_defs vendor_defs type_defs)
  show ?thesis
    using o s C7_type_invariants [OF o] C7_type_invariants [OF s]
    by (simp add: type_defs)
qed

subsection \<open>C8: at most one device\<close>

text \<open>
  C8: a configuration that classify returns with a device count of at most 1 has type
  SIMPLE and no secondary device.
\<close>

theorem C8_few_devices_simple:
  assumes "classify devices = Inr c" and "n_gpu c \<le> 1"
  shows "gpu_type c = LDM_GPU_TYPE_SIMPLE \<and> secondary c = None"
proof -
  from assms have "length devices \<le> 1"
    by (simp add: classify_n_gpu)
  from classify_few [OF this] assms(1) show ?thesis by auto
qed

theorem C8_few_devices_simple_witness:
  "classify [nvidia_plain] =
     Inr \<lparr>manager = \<lparr>pci_gpu_devices = [nvidia_plain]\<rparr>, primary = Some nvidia_plain, secondary = None,
          n_gpu = 1, gpu_type = LDM_GPU_TYPE_SIMPLE\<rparr> \<and>
   n_gpu \<lparr>manager = \<lparr>pci_gpu_devices = [nvidia_plain]\<rparr>, primary = Some nvidia_plain, secondary = None,
          n_gpu = 1, gpu_type = LDM_GPU_TYPE_SIMPLE\<rparr> \<le> 1"
proof -
  have s: "classify [nvidia_plain] =
     Inr \<lparr>manager = \<lparr>pci_gpu_devices = [nvidia_plain]\<rparr>, primary = Some nvidia_plain, secondary = None,
          n_gpu = 1, gpu_type = LDM_GPU_TYPE_SIMPLE\<rparr>"
    by (simp add: classify_defs)
  show ?thesis
    using s C8_few_devices_simple [OF s] by simp
qed

subsection \<open>C9: no device\<close>

text \<open>
  C9: on the empty sequence classify returns, without a fault, the configuration with
  count 0, type SIMPLE and neither a primary nor a secondary device.
\<close>

theorem C9_classify_empty:
  "classify [] = Inr \<lparr>manager = \<lparr>pci_gpu_devices = []\<rparr>, primary = None, secondary = None,
     n_gpu = 0, gpu_type = LDM_GPU_TYPE_SIMPLE\<rparr>"
  by (simp add: classify_defs)

subsection \<open>C10: the detection device of a non-empty system\<close>

text \<open>
  C10: for every non-empty sequence of devices, the detection device of the
  configuration that classify returns is not NULL; it is a device of the sequence.
\<close>

theorem C10_detection_device_not_null:
  assumes "devices \<noteq> []"
  shows "\<exists>c d. classify devices = Inr c \<and>
           ldm_gpu_config_get_detection_device (Some c) = Inr (Some d) \<and> d \<in> set devices"
proof (cases "2 \<le> length devices")
  case True
  from classify_many [OF this] obtain c boot nb where
    c: "classify devices = Inr c" and p: "primary c = Some boot" and b: "boot \<in> set devices"
    and nb: "nb = ldm_gpu_config_search_boot devices False (Some boot)"
    and ty: "(gpu_type c = LDM_GPU_TYPE_HYBRID OR LDM_GPU_TYPE_OPTIMUS \<and> secondary c = nb \<and> nb \<noteq> None) \<or>
      (gpu_type c = LDM_GPU_TYPE_HYBRID \<and> secondary c = nb \<and> nb \<noteq> None) \<or>
      (gpu_type c = LDM_GPU_TYPE_COMPOSITE OR LDM_GPU_TYPE_CROSSFIRE \<and> secondary c = None) \<or>
      (gpu_type c = LDM_GPU_TYPE_COMPOSITE OR LDM_GPU_TYPE_SLI \<and> secondary c = None) \<or>
      (gpu_type c = LDM_GPU_TYPE_SIMPLE \<and> secondary c = None)"
    by blast
  have det: "ldm_gpu_config_get_detection_device (Some c) =
      Inr (if gpu_type c AND LDM_GPU_TYPE_HYBRID \<noteq> 0 then secondary c else primary c)"
    by (simp add: ldm_gpu_config_get_detection_device_def ldm_gpu_config_has_type_def hybrid_bit)
  have nb_in: "nb = Some d \<Longrightarrow> d \<in> set devices" for d
    using search_boot_Some [of devices False "Some boot" d] nb by simp
  from ty have "\<exists>d. ldm_gpu_config_get_detection_device (Some c) = Inr (Some d) \<and> d \<in> set devices"
    unfolding det using p b nb_in
    by (elim disjE) (auto simp: type_defs)
  with c show ?thesis by blast
next
  case False
  with assms obtain d where "devices = [d]"
    by (cases devices; cases "tl devices") auto
  then show ?thesis
    by (simp add: classify_single ldm_gpu_config_get_detection_device_def
          ldm_gpu_config_has_type_def type_defs)
qed

theorem C10_detection_device_not_null_witness:
  "[intel_boot, nvidia_plain] \<noteq> [] \<and>
   (\<exists>c d. classify [intel_boot, nvidia_plain] = Inr c \<and>
      ldm_gpu_config_get_detection_device (Some c) = Inr (Some d) \<and>
      d \<in> set [intel_boot, nvidia_plain])"
  using C10_detection_device_not_null [of "[intel_boot, nvidia_plain]"]
  by simp

end
